theory Spec2Isabelle
  imports Main "HOL-Library.Word" "HOL-Library.Sublist"
begin

unbundle bit_operations_syntax

section \<open>Bytes, frames and the codec's declarations\<close>

text \<open>
  The repository's single source file is \<^verbatim>\<open>fc.go\<close>. A Go byte slice and a Go string
  are both sequences of bytes, and an Isabelle \<^typ>\<open>char\<close> is one byte, so both are
  modelled as \<^typ>\<open>string\<close>: the conversion \<^verbatim>\<open>string(fr.Payload)\<close> is the identity, and
  \<^term>\<open>of_char\<close> reads a byte as a number.
\<close>

text \<open>
  The command codes are constants declared outside \<^verbatim>\<open>fc.go\<close>. The twelve that
  \<^verbatim>\<open>handleFrame\<close> switches on are pairwise distinct (Go rejects duplicate constant
  cases), so they are the constructors of a datatype; every other code is
  \<open>MspOtherCode\<close>.
\<close>

datatype msp_code =
    MspAPIVersion | MspFCVariant | MspFCVersion | MspBoardInfo | MspBuildInfo
  | MspFeature | MspSetFeature | MspCFSerialConfig | MspSetCFSerialConfig
  | MspReboot | MspEepromWrite | MspDebugMsg | MspOtherCode nat

text \<open>
  The three flag constants are declared outside \<^verbatim>\<open>fc.go\<close> as well. Their values are
  not fixed here: every function that uses them takes them as a parameter.
\<close>

record MSPConsts =
  mspFCFeatureDebugTrace :: "32 word"
  serialFunctionMSP :: "16 word"
  serialFunctionDebugTrace :: "16 word"

text \<open>
  Modelled from the spec: the type \<^verbatim>\<open>MSPSerialConfig\<close> is declared outside \<^verbatim>\<open>fc.go\<close>.
  The spec gives an entry as an identifier and a 16-bit function mask, the two fields
  that \<^verbatim>\<open>handleFrame\<close> reads and writes.
\<close>

record MSPSerialConfig =
  Identifier :: "8 word"
  FunctionMask :: "16 word"

text \<open>
  Modelled from the spec: the type \<^verbatim>\<open>MSPFrame\<close> and its methods \<^verbatim>\<open>Byte\<close> and \<^verbatim>\<open>Read\<close>
  are declared outside \<^verbatim>\<open>fc.go\<close>. The spec gives a frame as a code, a raw payload and a
  typed field reader, where reading a repeated structure past the end of the data
  signals "no more entries". \<open>Byte\<close> indexes the payload and panics, as a Go index
  expression does, when the index is not in it; \<open>ReadU32\<close> and \<open>ReadSerialConfig\<close>
  decode little-endian fields from the front of the unread bytes and return the rest; no
  bytes left is \<open>ReadEOF\<close> (Go's \<^verbatim>\<open>io.EOF\<close>), too few bytes is \<open>ReadUnexpectedEOF\<close>, and
  a failed read leaves its destination untouched. \<^verbatim>\<open>handleFrame\<close> gets a frame whose
  reader stands at the start of the payload.
\<close>

text \<open>
  The payload is a byte slice: \<^verbatim>\<open>fc.go\<close> takes its length, indexes it and slices it. A Go
  slice has a length and a capacity, and a slice expression \<^verbatim>\<open>p[:n]\<close> is bounded by the
  capacity, not by the length: it panics when \<^verbatim>\<open>n\<close> exceeds the capacity and otherwise
  reaches into the backing array. \<open>Payload\<close> holds the bytes of the slice (its length is
  \<^verbatim>\<open>len(fr.Payload)\<close>) and \<open>Spare\<close> the bytes of the backing array between the length and
  the capacity, so that the capacity is the length of \<open>Payload fr @ Spare fr\<close>. Which
  capacity the codec gives a payload is not fixed by \<^verbatim>\<open>fc.go\<close>.
\<close>

record MSPFrame =
  Code :: msp_code
  Payload :: string
  Spare :: string

datatype panic = SliceBoundsOutOfRange | IndexOutOfRange | PanicReadError | PanicFatal string

datatype 'a read_result = ReadOk 'a string | ReadEOF | ReadUnexpectedEOF

definition Byte :: "MSPFrame \<Rightarrow> nat \<Rightarrow> panic + 8 word" where
  "Byte fr i =
     (if i < length (Payload fr) then Inr (of_char (Payload fr ! i)) else Inl IndexOutOfRange)"

definition ReadU32 :: "string \<Rightarrow> (32 word) read_result" where
  "ReadU32 bs =
     (if bs = [] then ReadEOF
      else if length bs < 4 then ReadUnexpectedEOF
      else ReadOk (of_char (bs ! 0) OR push_bit 8 (of_char (bs ! 1))
                   OR push_bit 16 (of_char (bs ! 2)) OR push_bit 24 (of_char (bs ! 3)))
                  (drop 4 bs))"

definition ReadSerialConfig :: "string \<Rightarrow> MSPSerialConfig read_result" where
  "ReadSerialConfig bs =
     (if bs = [] then ReadEOF
      else if length bs < 3 then ReadUnexpectedEOF
      else ReadOk \<lparr>Identifier = of_char (bs ! 0),
                   FunctionMask = of_char (bs ! 1) OR push_bit 8 (of_char (bs ! 2))\<rparr>
                  (drop 3 bs))"

section \<open>The connection and the session state\<close>

text \<open>
  Modelled from the spec: the type \<^verbatim>\<open>MSP\<close> and its method \<^verbatim>\<open>WriteCmd\<close> are declared
  outside \<^verbatim>\<open>fc.go\<close>. The spec gives \<^verbatim>\<open>writeCommand(code, payload?)\<close>; a connection is
  modelled by the port it was opened on and the commands written to it, in order.
\<close>

datatype cmd_data = NoData | FeatureData "32 word" | SerialData "MSPSerialConfig list"

record MSP =
  port :: string
  baud :: int
  written :: "(msp_code \<times> cmd_data) list"

text \<open>
  A call of \<^verbatim>\<open>printf\<close> is recorded as its format string and its arguments; \<open>Stdout\<close>
  is the list of the calls made so far.
\<close>

datatype fmt_arg = S string | D int | VCode msp_code | VBytes string

record FCOptions =
  PortName :: string
  BaudRate :: int
  Stdout :: "(string \<times> fmt_arg list) list"
  EnableDebugTrace :: bool

text \<open>
  The field \<open>msp\<close> is a pointer in the source. It is nil only inside \<^verbatim>\<open>reconnect\<close>,
  between closing the old connection and opening the new one, where nothing reads it;
  the model keeps the connection itself.
\<close>

record FC =
  opts :: FCOptions
  msp :: MSP
  variant :: string
  versionMajor :: "8 word"
  versionMinor :: "8 word"
  versionPatch :: "8 word"
  boardID :: string
  targetName :: string
  features :: "32 word"

definition WriteCmd :: "msp_code \<Rightarrow> cmd_data \<Rightarrow> FC \<Rightarrow> FC" where
  "WriteCmd c d f = f\<lparr>msp := (msp f)\<lparr>written := written (msp f) @ [(c, d)]\<rparr>\<rparr>"

definition printf :: "string \<Rightarrow> fmt_arg list \<Rightarrow> FC \<Rightarrow> FC" where
  "printf fmt args f = f\<lparr>opts := (opts f)\<lparr>Stdout := Stdout (opts f) @ [(fmt, args)]\<rparr>\<rparr>"

definition updateInfo :: "FC \<Rightarrow> FC" where
  "updateInfo f =
     WriteCmd MspCFSerialConfig NoData
      (WriteCmd MspFeature NoData
        (WriteCmd MspBuildInfo NoData
          (WriteCmd MspBoardInfo NoData
            (WriteCmd MspFCVersion NoData
              (WriteCmd MspFCVariant NoData
                (WriteCmd MspAPIVersion NoData f))))))"

definition reset :: "FC \<Rightarrow> FC" where
  "reset f = f\<lparr>variant := '''', versionMajor := 0, versionMinor := 0, versionPatch := 0,
               boardID := '''', targetName := '''', features := 0\<rparr>"

section \<open>Handling a frame\<close>

definition infoLine :: "FC \<Rightarrow> string \<times> fmt_arg list" where
  "infoLine f =
     (''%s %d.%d.%d (board %s%s)\<newline>'',
      [S (variant f), D (uint (versionMajor f)), D (uint (versionMinor f)),
       D (uint (versionPatch f)), S (boardID f),
       S (if targetName f \<noteq> '''' then '', target '' @ targetName f else '''')])"

definition printInfo :: "FC \<Rightarrow> FC" where
  "printInfo f =
     (if variant f \<noteq> '''' \<and> versionMajor f \<noteq> 0 \<and> boardID f \<noteq> ''''
      then printf (fst (infoLine f)) (snd (infoLine f)) f
      else f)"

definition versionGte :: "FC \<Rightarrow> 8 word \<Rightarrow> 8 word \<Rightarrow> 8 word \<Rightarrow> bool" where
  "versionGte f major minor patch \<longleftrightarrow>
     versionMajor f > major \<or> (versionMajor f = major \<and> versionMinor f > minor) \<or>
     (versionMajor f = major \<and> versionMinor f = minor \<and> versionPatch f \<ge> patch)"

definition shouldEnableDebugTrace :: "FC \<Rightarrow> bool" where
  "shouldEnableDebugTrace f \<longleftrightarrow>
     EnableDebugTrace (opts f) \<and> variant f = ''INAV'' \<and> versionGte f 1 9 0"

definition Trim :: "string \<Rightarrow> string \<Rightarrow> string" where
  "Trim s cutset =
     rev (dropWhile (\<lambda>c. c \<in> set cutset) (rev (dropWhile (\<lambda>c. c \<in> set cutset) s)))"

definition handleAPIVersion :: "FC \<Rightarrow> MSPFrame \<Rightarrow> panic + FC" where
  "handleAPIVersion f fr =
     (case Byte fr 1 of Inl e \<Rightarrow> Inl e | Inr b1 \<Rightarrow>
       (case Byte fr 2 of Inl e \<Rightarrow> Inl e | Inr b2 \<Rightarrow>
         (case Byte fr 0 of Inl e \<Rightarrow> Inl e | Inr b0 \<Rightarrow>
            Inr (printf ''MSP API version %d.%d (protocol %d)\<newline>''
                   [D (uint b1), D (uint b2), D (uint b0)] f))))"

definition handleFCVariant :: "FC \<Rightarrow> MSPFrame \<Rightarrow> FC" where
  "handleFCVariant f fr = printInfo (f\<lparr>variant := Payload fr\<rparr>)"

definition handleFCVersion :: "FC \<Rightarrow> MSPFrame \<Rightarrow> panic + FC" where
  "handleFCVersion f fr =
     (case Byte fr 0 of Inl e \<Rightarrow> Inl e | Inr b0 \<Rightarrow>
       (case Byte fr 1 of Inl e \<Rightarrow> Inl e | Inr b1 \<Rightarrow>
         (case Byte fr 2 of Inl e \<Rightarrow> Inl e | Inr b2 \<Rightarrow>
            Inr (printInfo
                  (f\<lparr>versionMajor := b0, versionMinor := b1, versionPatch := b2\<rparr>)))))"

definition handleBoardInfo :: "FC \<Rightarrow> MSPFrame \<Rightarrow> panic + FC" where
  "handleBoardInfo f fr =
     (let p = Payload fr; backing = Payload fr @ Spare fr in
      if length backing < 4 then Inl SliceBoundsOutOfRange
      else
        let f1 = f\<lparr>boardID := take 4 backing\<rparr>;
            f2 = (if length p \<ge> 9 then
                    let targetNameLength = (of_char (p ! 8) :: nat) in
                    if length p > 8 + targetNameLength
                    then f1\<lparr>targetName := take targetNameLength (drop 9 p)\<rparr>
                    else f1
                  else f1)
        in Inr (printInfo f2))"

definition handleBuildInfo :: "FC \<Rightarrow> MSPFrame \<Rightarrow> panic + FC" where
  "handleBuildInfo f fr =
     (let p = Payload fr; backing = Payload fr @ Spare fr in
      if length backing < 11 then Inl SliceBoundsOutOfRange
      else if length backing < 19 then Inl SliceBoundsOutOfRange
      else if length p < 19 then Inl SliceBoundsOutOfRange
      else
        let buildDate = take 11 backing;
            buildTime = take 8 (drop 11 backing);
            revision = drop 19 p
        in Inr (printf ''Build %s (built on %s @ %s)\<newline>''
                  [S revision, S buildDate, S buildTime] f))"

definition handleFeature :: "MSPConsts \<Rightarrow> FC \<Rightarrow> MSPFrame \<Rightarrow> FC" where
  "handleFeature k f fr =
     (let f1 = (case ReadU32 (Payload fr) of
                  ReadOk v rest \<Rightarrow> f\<lparr>features := v\<rparr>
                | ReadEOF \<Rightarrow> f
                | ReadUnexpectedEOF \<Rightarrow> f)
      in if features f1 AND mspFCFeatureDebugTrace k = 0 \<and> shouldEnableDebugTrace f1 then
           let f2 = printf ''Enabling FEATURE_DEBUG_TRACE\<newline>'' [] f1;
               f3 = f2\<lparr>features := features f2 OR mspFCFeatureDebugTrace k\<rparr>;
               f4 = WriteCmd MspSetFeature (FeatureData (features f3)) f3
           in WriteCmd MspEepromWrite NoData f4
         else f1)"

text \<open>
  The read loop of the serial-configuration case: it reads entries until the reader
  reports the end of the data, and panics on any other read error.
\<close>

function readSerialConfigs ::
  "16 word \<Rightarrow> string \<Rightarrow> bool \<Rightarrow> MSPSerialConfig list \<Rightarrow> panic + (bool \<times> MSPSerialConfig list)"
where
  "readSerialConfigs msk bs hasDebugTraceMSPPort serialConfigs =
     (case ReadSerialConfig bs of
        ReadEOF \<Rightarrow> Inr (hasDebugTraceMSPPort, serialConfigs)
      | ReadUnexpectedEOF \<Rightarrow> Inl PanicReadError
      | ReadOk cfg rest \<Rightarrow>
          readSerialConfigs msk rest
            (if FunctionMask cfg AND msk = msk then True else hasDebugTraceMSPPort)
            (serialConfigs @ [cfg]))"
  by pat_completeness auto
termination
  by (relation "measure (\<lambda>(msk, bs, h, cs). length bs)")
     (auto simp: ReadSerialConfig_def split: if_splits)

text \<open>
  The patch loop: the first entry that carries the MSP function gets the debug-trace
  function, a line is printed for it, and the loop stops.
\<close>

fun enableOnFirstMSPPort ::
  "MSPConsts \<Rightarrow> FC \<Rightarrow> MSPSerialConfig list \<Rightarrow> FC \<times> MSPSerialConfig list"
where
  "enableOnFirstMSPPort k f [] = (f, [])"
| "enableOnFirstMSPPort k f (c # cs) =
     (if FunctionMask c AND serialFunctionMSP k \<noteq> 0 then
        (printf ''Enabling FUNCTION_DEBUG_TRACE on serial port %v\<newline>''
           [D (uint (Identifier c))] f,
         c\<lparr>FunctionMask := FunctionMask c OR serialFunctionDebugTrace k\<rparr> # cs)
      else
        (case enableOnFirstMSPPort k f cs of (f', cs') \<Rightarrow> (f', c # cs')))"

definition handleCFSerialConfig :: "MSPConsts \<Rightarrow> FC \<Rightarrow> MSPFrame \<Rightarrow> panic + FC" where
  "handleCFSerialConfig k f fr =
     (if shouldEnableDebugTrace f then
        let msk = serialFunctionMSP k OR serialFunctionDebugTrace k in
        (case readSerialConfigs msk (Payload fr) False [] of
           Inl e \<Rightarrow> Inl e
         | Inr (hasDebugTraceMSPPort, serialConfigs) \<Rightarrow>
             if \<not> hasDebugTraceMSPPort then
               (case enableOnFirstMSPPort k f serialConfigs of
                  (f1, serialConfigs') \<Rightarrow>
                    Inr (WriteCmd MspEepromWrite NoData
                          (WriteCmd MspSetCFSerialConfig (SerialData serialConfigs') f1)))
             else Inr f)
      else Inr f)"

definition handleDebugMsg :: "FC \<Rightarrow> MSPFrame \<Rightarrow> FC" where
  "handleDebugMsg f fr =
     printf ''[DEBUG] %s\<newline>''
       [S (Trim (Payload fr) [CHR '' '', CHR 0x0D, CHR 0x0A, CHR 0x09, CHR 0x00])] f"

definition handleFrame :: "MSPConsts \<Rightarrow> FC \<Rightarrow> MSPFrame \<Rightarrow> panic + FC" where
  "handleFrame k f fr =
     (case Code fr of
        MspAPIVersion \<Rightarrow> handleAPIVersion f fr
      | MspFCVariant \<Rightarrow> Inr (handleFCVariant f fr)
      | MspFCVersion \<Rightarrow> handleFCVersion f fr
      | MspBoardInfo \<Rightarrow> handleBoardInfo f fr
      | MspBuildInfo \<Rightarrow> handleBuildInfo f fr
      | MspFeature \<Rightarrow> Inr (handleFeature k f fr)
      | MspCFSerialConfig \<Rightarrow> handleCFSerialConfig k f fr
      | MspReboot \<Rightarrow> Inr (printf ''Rebooting board...\<newline>'' [] f)
      | MspDebugMsg \<Rightarrow> Inr (handleDebugMsg f fr)
      | MspSetFeature \<Rightarrow> Inr f
      | MspSetCFSerialConfig \<Rightarrow> Inr f
      | MspEepromWrite \<Rightarrow> Inr f
      | MspOtherCode n \<Rightarrow>
          Inr (printf ''Unhandled MSP frame %d with payload %v\<newline>''
                 [VCode (Code fr), VBytes (Payload fr)] f))"

section \<open>The receive loop and reconnection\<close>

text \<open>
  Modelled from the spec: the function \<^verbatim>\<open>NewMSP\<close> is declared outside \<^verbatim>\<open>fc.go\<close>. The
  spec gives \<^verbatim>\<open>connect(port, baud) -> session | ConnectError\<close>. Whether an attempt
  succeeds is decided by the environment (the argument \<open>ok\<close>); a new connection has
  nothing written to it.
\<close>

definition NewMSP :: "string \<Rightarrow> int \<Rightarrow> bool \<Rightarrow> MSP option" where
  "NewMSP p b ok = (if ok then Some \<lparr>port = p, baud = b, written = []\<rparr> else None)"

text \<open>
  The loop of \<^verbatim>\<open>reconnect\<close> may run forever. The environment is the list of the
  outcomes of the successive attempts to open the port; the result is \<open>None\<close> when
  the loop is still running after the last of them. The pause between two attempts has
  no effect on the state and is left out; \<^verbatim>\<open>reconnect\<close> never returns an error.
\<close>

fun reconnect :: "FC \<Rightarrow> bool list \<Rightarrow> FC option" where
  "reconnect f [] = None"
| "reconnect f (ok # attempts) =
     (case NewMSP (PortName (opts f)) (BaudRate (opts f)) ok of
        Some m \<Rightarrow>
          Some (updateInfo
                 ((reset (printf ''Reconnected to %s @ %dbps\<newline>''
                            [S (PortName (opts f)), D (BaudRate (opts f))] f))\<lparr>msp := m\<rparr>))
      | None \<Rightarrow> reconnect f attempts)"

text \<open>
  \<^verbatim>\<open>StartUpdating\<close> never returns. The model runs it over the outcomes of a finite number
  of calls of \<^verbatim>\<open>ReadFrame\<close> (a frame, the end of the transport together with the
  outcomes of the attempts to reopen it, a protocol error, any other error) and
  returns where the loop stands after them.
\<close>

datatype read_outcome =
    GotFrame MSPFrame | GotEOF "bool list" | GotMSPError string | GotOtherError string

datatype run_state = Running FC | Reconnecting | Panicked panic

fun StartUpdating :: "MSPConsts \<Rightarrow> FC \<Rightarrow> read_outcome list \<Rightarrow> run_state" where
  "StartUpdating k f [] = Running f"
| "StartUpdating k f (GotFrame fr # rs) =
     (case handleFrame k f fr of
        Inl p \<Rightarrow> Panicked p
      | Inr f' \<Rightarrow> StartUpdating k f' rs)"
| "StartUpdating k f (GotEOF attempts # rs) =
     (case reconnect (printf ''Board disconnected, trying to reconnect...\<newline>'' [] f) attempts of
        None \<Rightarrow> Reconnecting
      | Some f' \<Rightarrow> StartUpdating k f' rs)"
| "StartUpdating k f (GotMSPError e # rs) = StartUpdating k (printf ''%v\<newline>'' [S e] f) rs"
| "StartUpdating k f (GotOtherError e # rs) = Panicked (PanicFatal e)"

section \<open>Flashing\<close>

text \<open>
  Errors are values. \<open>ErrNew\<close> and \<open>Errorf\<close> are the errors that \<^verbatim>\<open>fc.go\<close> creates
  (\<open>Errorf\<close> keeps the format string and its arguments, as \<open>printf\<close> does);
  \<open>ErrExternal\<close> is an error that comes from outside: a process that could not be
  launched or exited with a failure, a directory that could not be read, the codec.
\<close>

datatype err = ErrNew string | Errorf string "fmt_arg list" | ErrExternal string

definition dfuDevicePrefix :: string where
  "dfuDevicePrefix = ''Found DFU: ''"

definition internalFlashMarker :: string where
  "internalFlashMarker = ''@Internal Flash  /''"

subsection \<open>Functions of Go's standard library\<close>

text \<open>
  The functions of the packages \<^verbatim>\<open>strings\<close>, \<^verbatim>\<open>path/filepath\<close> and \<^verbatim>\<open>regexp\<close> that
  \<^verbatim>\<open>fc.go\<close> calls, on byte strings. \<^verbatim>\<open>strings.HasPrefix\<close> and \<^verbatim>\<open>strings.HasSuffix\<close> are
  \<^const>\<open>prefix\<close> and \<^const>\<open>suffix\<close>.
\<close>

fun Contains :: "string \<Rightarrow> string \<Rightarrow> bool" where
  "Contains [] sub = (sub = [])"
| "Contains (c # cs) sub = (prefix sub (c # cs) \<or> Contains cs sub)"

fun Split :: "string \<Rightarrow> char \<Rightarrow> string list" where
  "Split [] sep = [[]]"
| "Split (c # cs) sep =
     (if c = sep then [] # Split cs sep
      else (case Split cs sep of [] \<Rightarrow> [[c]] | l # ls \<Rightarrow> (c # l) # ls))"

text \<open>
  \<^verbatim>\<open>filepath.Ext\<close> scans the path from its end, stops at a path separator and returns the
  text from the last dot on.
\<close>

fun ExtFrom :: "string \<Rightarrow> string \<Rightarrow> string" where
  "ExtFrom [] seen = []"
| "ExtFrom (c # before) seen =
     (if c = CHR ''/'' then []
      else if c = CHR ''.'' then c # seen
      else ExtFrom before (c # seen))"

definition Ext :: "string \<Rightarrow> string" where
  "Ext path = ExtFrom (rev path) []"

text \<open>
  The three patterns that \<^verbatim>\<open>dfuFlash\<close> compiles have one capture group each and one of
  two shapes: a literal followed by a captured greedy \<^verbatim>\<open>+\<close> of a character class, or a
  literal, a captured lazy \<^verbatim>\<open>*?\<close> of a character class and a closing literal.
  \<open>matchAt\<close> matches a pattern at the start of a text and returns the capture;
  \<open>FindStringSubmatch\<close> returns the capture of the leftmost match, as Go's
  leftmost-first matching does.
\<close>

datatype pattern =
    CapturePlus string "char \<Rightarrow> bool"
  | CaptureLazyStar string "char \<Rightarrow> bool" string

fun lazyStar :: "(char \<Rightarrow> bool) \<Rightarrow> string \<Rightarrow> string \<Rightarrow> string option" where
  "lazyStar cls closing [] = (if prefix closing [] then Some [] else None)"
| "lazyStar cls closing (c # cs) =
     (if prefix closing (c # cs) then Some []
      else if cls c then map_option ((#) c) (lazyStar cls closing cs)
      else None)"

fun matchAt :: "pattern \<Rightarrow> string \<Rightarrow> string option" where
  "matchAt (CapturePlus lit cls) s =
     (if prefix lit s then
        (let m = takeWhile cls (drop (length lit) s) in if m = [] then None else Some m)
      else None)"
| "matchAt (CaptureLazyStar lit cls closing) s =
     (if prefix lit s then lazyStar cls closing (drop (length lit) s) else None)"

fun FindStringSubmatch :: "pattern \<Rightarrow> string \<Rightarrow> string option" where
  "FindStringSubmatch p [] = matchAt p []"
| "FindStringSubmatch p (c # cs) =
     (case matchAt p (c # cs) of
        Some m \<Rightarrow> Some m
      | None \<Rightarrow> FindStringSubmatch p cs)"

definition isDigit :: "char \<Rightarrow> bool" where
  "isDigit c \<longleftrightarrow> (48::nat) \<le> of_char c \<and> of_char c \<le> (57::nat)"

text \<open>The pattern \<^verbatim>\<open>alt=(\d+)\<close>.\<close>

definition altPattern :: pattern where
  "altPattern = CapturePlus ''alt='' isDigit"

text \<open>The pattern \<^verbatim>\<open>serial="(.*?)"\<close>; the dot matches every character but a newline.\<close>

definition serialPattern :: pattern where
  "serialPattern = CaptureLazyStar (''serial='' @ [CHR 0x22]) (\<lambda>c. c \<noteq> CHR 0x0A) [CHR 0x22]"

text \<open>The pattern \<^verbatim>\<open>Internal Flash  /([\dx]*?)/\<close>.\<close>

definition offsetPattern :: pattern where
  "offsetPattern =
     CaptureLazyStar ''Internal Flash  /'' (\<lambda>c. isDigit c \<or> c = CHR ''x'') ''/''"

subsection \<open>Listing the devices\<close>

text \<open>
  The outcome of one run of the device lister: the text it wrote to its standard output
  and the error of \<^verbatim>\<open>cmd.Run\<close>, if any.
\<close>

record cmd_run =
  stdoutText :: string
  failure :: "err option"

definition dfuList :: "cmd_run \<Rightarrow> string list \<times> err option" where
  "dfuList run =
     (let lines = Split (stdoutText run) (CHR 0x0A);
          trimmed = map (\<lambda>ll. Trim ll [CHR 0x0A, CHR 0x0D, CHR 0x09, CHR '' '']) lines;
          dfuLines = map (drop (length dfuDevicePrefix))
                       (filter (prefix dfuDevicePrefix) trimmed)
      in (dfuLines, None))"

text \<open>
  The loop of \<^verbatim>\<open>dfuWait\<close>: each round reads the clock, then runs the lister. The
  environment is the list of these pairs; the result is \<open>None\<close> when the loop is still
  running after the last of them. Times are in nanoseconds.
\<close>

fun dfuWaitLoop :: "int \<Rightarrow> (int \<times> cmd_run) list \<Rightarrow> err option option" where
  "dfuWaitLoop timeout [] = None"
| "dfuWaitLoop timeout ((now, run) # polls) =
     (if timeout < now then
        Some (Some (Errorf ''timed out while waiting for board in DFU mode'' []))
      else
        (case dfuList run of
           (devices, Some e) \<Rightarrow> Some (Some e)
         | (devices, None) \<Rightarrow>
             if list_ex (\<lambda>dev. Contains dev internalFlashMarker) devices then Some None
             else dfuWaitLoop timeout polls))"

definition dfuWait :: "int \<Rightarrow> (int \<times> cmd_run) list \<Rightarrow> err option option" where
  "dfuWait start polls = dfuWaitLoop (start + 30 * 1000000000) polls"

subsection \<open>Parsing the descriptor and flashing\<close>

definition regexpFind :: "pattern \<Rightarrow> string \<Rightarrow> string" where
  "regexpFind p s = (case FindStringSubmatch p s of Some m \<Rightarrow> m | None \<Rightarrow> [])"

text \<open>
  \<^verbatim>\<open>dfuFlash\<close> returns the state after its output, the arguments of the flashing command
  if it launched one, and its error. \<open>listRun\<close> is the run of the lister, \<open>flashRun\<close>
  the error of the flashing command, \<open>base\<close> the library function \<^verbatim>\<open>filepath.Base\<close>.
\<close>

definition dfuFlash ::
  "cmd_run \<Rightarrow> err option \<Rightarrow> (string \<Rightarrow> string) \<Rightarrow> FC \<Rightarrow> string \<Rightarrow> string
     \<Rightarrow> FC \<times> string list option \<times> err option"
where
  "dfuFlash listRun flashResult base f dfuPath binaryPath =
     (case dfuList listRun of
        (devices, Some e) \<Rightarrow> (f, None, Some e)
      | (devices, None) \<Rightarrow>
          let device = (case List.find (\<lambda>dev. Contains dev internalFlashMarker) devices of
                          None \<Rightarrow> [] | Some dev \<Rightarrow> dev);
              alt = regexpFind altPattern device;
              serial = regexpFind serialPattern device;
              offset = regexpFind offsetPattern device
          in if alt = [] \<or> serial = [] \<or> offset = [] then
               (f, None,
                Some (Errorf ''could not determine flash parameters from %q'' [S device]))
             else
               (printf ''Flashing %s via DFU to offset %s...\<newline>''
                  [S (base binaryPath), S offset] f,
                Some [dfuPath, ''-a'', alt, ''-S'', serial, ''-s'', offset @ '':leave'',
                      ''-D'', binaryPath],
                flashResult))"

subsection \<open>Locating the binary\<close>

record FileInfo =
  Name :: string
  ModTime :: int

fun locateLoop :: "string \<Rightarrow> FileInfo list \<Rightarrow> FileInfo option \<Rightarrow> FileInfo option" where
  "locateLoop target [] binary = binary"
| "locateLoop target (fi # files) binary =
     locateLoop target files
       (if Ext (Name fi) = ''.bin'' then
          (let nonExt = take (length (Name fi) - 4) (Name fi) in
           if suffix target nonExt then
             (case binary of
                None \<Rightarrow> Some fi
              | Some b \<Rightarrow> if ModTime b < ModTime fi then Some fi else binary)
           else binary)
        else binary)"

definition locateBinary :: "FileInfo list \<Rightarrow> string \<Rightarrow> err + FileInfo" where
  "locateBinary files target =
     (case locateLoop target files None of
        None \<Rightarrow> Inl (Errorf ''could not find binary for target %s'' [S target])
      | Some binary \<Rightarrow> Inr binary)"

subsection \<open>The flash sequence\<close>

text \<open>
  What \<^verbatim>\<open>Flash\<close> gets from outside: the outcomes of looking up the flashing tool, of the
  build, of reading the output directory, of the reboot command, the clock and the lister
  runs of \<^verbatim>\<open>dfuWait\<close>, the lister run and the flashing run of \<^verbatim>\<open>dfuFlash\<close>, and the
  library functions \<^verbatim>\<open>filepath.Join\<close> and \<^verbatim>\<open>filepath.Base\<close>. The result is \<open>None\<close> when
  \<^verbatim>\<open>dfuWait\<close> is still running at the end of its environment.
\<close>

record flash_env =
  lookPath :: "err + string"
  makeRun :: "err option"
  readDir :: "err + FileInfo list"
  rebootResult :: "err option"
  waitStart :: int
  waitPolls :: "(int \<times> cmd_run) list"
  flashList :: cmd_run
  flashRun :: "err option"
  pathJoin :: "string \<Rightarrow> string \<Rightarrow> string"
  pathBase :: "string \<Rightarrow> string"

definition Flash ::
  "flash_env \<Rightarrow> FC \<Rightarrow> string \<Rightarrow> string \<Rightarrow> (FC \<times> string list option \<times> err option) option"
where
  "Flash env f srcDir targetArg =
     (let target = (if targetArg = [] then targetName f else targetArg) in
      if target = [] then Some (f, None, Some (ErrNew ''empty target name''))
      else
        (case lookPath env of
           Inl e \<Rightarrow> Some (f, None, Some e)
         | Inr dfu \<Rightarrow>
             let f1 = printf ''Building binary for %s...\<newline>'' [S target] f in
             (case makeRun env of
                Some e \<Rightarrow> Some (f1, None, Some e)
              | None \<Rightarrow>
                  let obj = pathJoin env srcDir ''obj'' in
                  (case readDir env of
                     Inl e \<Rightarrow> Some (f1, None, Some e)
                   | Inr files \<Rightarrow>
                       (case locateBinary files target of
                          Inl e \<Rightarrow> Some (f1, None, Some e)
                        | Inr binary \<Rightarrow>
                            let binaryPath = pathJoin env obj (Name binary);
                                f2 = printf ''Rebooting board in DFU mode...\<newline>'' [] f1
                            in
                            (case rebootResult env of
                               Some e \<Rightarrow> Some (f2, None, Some e)
                             | None \<Rightarrow>
                                 (case dfuWait (waitStart env) (waitPolls env) of
                                    None \<Rightarrow> None
                                  | Some (Some e) \<Rightarrow> Some (f2, None, Some e)
                                  | Some None \<Rightarrow>
                                      Some (dfuFlash (flashList env) (flashRun env)
                                             (pathBase env) f2 dfu binaryPath))))))))"

section \<open>Notions used in the statements\<close>

text \<open>
  The entries that a serial-configuration payload holds: what successive reads of the
  frame's reader deliver until it reports the end of the data, and \<open>None\<close> when the
  payload ends inside an entry.
\<close>

function serialEntries :: "string \<Rightarrow> MSPSerialConfig list option" where
  "serialEntries bs =
     (case ReadSerialConfig bs of
        ReadEOF \<Rightarrow> Some []
      | ReadUnexpectedEOF \<Rightarrow> None
      | ReadOk cfg rest \<Rightarrow> map_option ((#) cfg) (serialEntries rest))"
  by pat_completeness auto
termination
  by (relation "measure length") (auto simp: ReadSerialConfig_def split: if_splits)

text \<open>The seven requests of \<^verbatim>\<open>updateInfo\<close>, in the order in which it writes them.\<close>

definition infoRequests :: "(msp_code \<times> cmd_data) list" where
  "infoRequests =
     [(MspAPIVersion, NoData), (MspFCVariant, NoData), (MspFCVersion, NoData),
      (MspBoardInfo, NoData), (MspBuildInfo, NoData), (MspFeature, NoData),
      (MspCFSerialConfig, NoData)]"

text \<open>The identity that the frames build up: variant, version, board and target name.\<close>

definition identity ::
  "FC \<Rightarrow> string \<times> 8 word \<times> 8 word \<times> 8 word \<times> string \<times> string"
where
  "identity f =
     (variant f, versionMajor f, versionMinor f, versionPatch f, boardID f, targetName f)"


text \<open>
  The device line that \<^verbatim>\<open>dfuFlash\<close> parses: the first line of the listing with the
  internal-flash marker, and the empty string when there is none.
\<close>

definition matchedDevice :: "cmd_run \<Rightarrow> string" where
  "matchedDevice listRun =
     (case List.find (\<lambda>dev. Contains dev internalFlashMarker) (fst (dfuList listRun)) of
        None \<Rightarrow> []
      | Some dev \<Rightarrow> dev)"

section \<open>Example inputs\<close>

text \<open>
  Flag values for the examples: bit 31 of the feature mask, bits 0 and 15 of the function
  mask.
\<close>

definition exampleConsts :: MSPConsts where
  "exampleConsts =
     \<lparr>mspFCFeatureDebugTrace = 0x80000000, serialFunctionMSP = 1,
      serialFunctionDebugTrace = 0x8000\<rparr>"

text \<open>
  A session with an INAV 1.9.0 board whose identity is known but for the target name,
  with debug trace requested: the policy allows enabling it.
\<close>

definition exampleFC :: FC where
  "exampleFC =
     \<lparr>opts = \<lparr>PortName = ''/dev/ttyACM0'', BaudRate = 115200, Stdout = [],
              EnableDebugTrace = True\<rparr>,
      msp = \<lparr>port = ''/dev/ttyACM0'', baud = 115200, written = []\<rparr>,
      variant = ''INAV'', versionMajor = 1, versionMinor = 9, versionPatch = 0,
      boardID = ''ABCD'', targetName = [], features = 0\<rparr>"

text \<open>Board-info frames: the board identifier alone, with the name XYZ, and one byte short.\<close>

definition boardInfoShort :: MSPFrame where
  "boardInfoShort = \<lparr>Code = MspBoardInfo, Payload = ''ABCD'', Spare = []\<rparr>"

definition boardInfoNamed :: MSPFrame where
  "boardInfoNamed =
     \<lparr>Code = MspBoardInfo,
      Payload = ''ABCD'' @ [CHR 0x00, CHR 0x00, CHR 0x00, CHR 0x00, CHR 0x03] @ ''XYZ'', Spare = []\<rparr>"

definition boardInfoCut :: MSPFrame where
  "boardInfoCut =
     \<lparr>Code = MspBoardInfo,
      Payload = ''ABCD'' @ [CHR 0x00, CHR 0x00, CHR 0x00, CHR 0x00, CHR 0x03] @ ''XY'', Spare = []\<rparr>"

text \<open>
  Frames that are too short: three bytes of board info, eighteen of build info, both
  with no spare capacity; and three bytes of board info in a slice of capacity eight,
  whose backing array goes on with the bytes of an earlier frame.
\<close>

definition boardInfoTruncated :: MSPFrame where
  "boardInfoTruncated = \<lparr>Code = MspBoardInfo, Payload = ''ABC'', Spare = []\<rparr>"

definition boardInfoSpare :: MSPFrame where
  "boardInfoSpare = \<lparr>Code = MspBoardInfo, Payload = ''ABC'', Spare = ''XYZWV''\<rparr>"

definition buildInfoTruncated :: MSPFrame where
  "buildInfoTruncated = \<lparr>Code = MspBuildInfo, Payload = ''Jan 01 201812:00:0'', Spare = []\<rparr>"

text \<open>
  Serial-configuration frames: no port at all; one port with function mask 2 (no MSP
  function); three ports with masks 2, 1 and 4 (the second one carries MSP).
\<close>

definition serialNoPorts :: MSPFrame where
  "serialNoPorts = \<lparr>Code = MspCFSerialConfig, Payload = [], Spare = []\<rparr>"

definition serialNoMSP :: MSPFrame where
  "serialNoMSP = \<lparr>Code = MspCFSerialConfig, Payload = [CHR 0x00, CHR 0x02, CHR 0x00], Spare = []\<rparr>"

definition serialOneMSP :: MSPFrame where
  "serialOneMSP =
     \<lparr>Code = MspCFSerialConfig,
      Payload = [CHR 0x00, CHR 0x02, CHR 0x00, CHR 0x01, CHR 0x01, CHR 0x00,
                 CHR 0x02, CHR 0x04, CHR 0x00], Spare = []\<rparr>"

text \<open>Feature frames: an empty mask, and a mask with bit 0 and the debug-trace bit.\<close>

definition featureNone :: MSPFrame where
  "featureNone = \<lparr>Code = MspFeature, Payload = [CHR 0x00, CHR 0x00, CHR 0x00, CHR 0x00], Spare = []\<rparr>"

definition featureWithTrace :: MSPFrame where
  "featureWithTrace =
     \<lparr>Code = MspFeature, Payload = [CHR 0x01, CHR 0x00, CHR 0x00, CHR 0x80], Spare = []\<rparr>"

text \<open>
  The example session with the debug-trace bit in the stored feature mask, once with
  debug trace requested and once without (then the policy does not allow enabling it).
\<close>

definition exampleFCTraceStored :: FC where
  "exampleFCTraceStored = exampleFC\<lparr>features := 0x80000000\<rparr>"

definition exampleFCNotRequested :: FC where
  "exampleFCNotRequested =
     exampleFC\<lparr>opts := (opts exampleFC)\<lparr>EnableDebugTrace := False\<rparr>,
               features := 0x80000000\<rparr>"

text \<open>A version frame for the version 0.9.1.\<close>

definition versionZeroMajor :: MSPFrame where
  "versionZeroMajor = \<lparr>Code = MspFCVersion, Payload = [CHR 0x00, CHR 0x09, CHR 0x01], Spare = []\<rparr>"

text \<open>The example session after the frame \<open>boardInfoNamed\<close>: the summary has been printed.\<close>

definition exampleFCNamed :: FC where
  "exampleFCNamed =
     exampleFC\<lparr>opts := (opts exampleFC)\<lparr>Stdout :=
                 [(''%s %d.%d.%d (board %s%s)\<newline>'',
                   [S ''INAV'', D 1, D 9, D 0, S ''ABCD'', S '', target XYZ''])]\<rparr>,
               targetName := ''XYZ''\<rparr>"

text \<open>The device line of the comment in \<^verbatim>\<open>dfuFlash\<close>, and lister runs that print it.\<close>

definition exampleLine :: string where
  "exampleLine =
     ''[0483:df11] ver=2200, devnum=17, cfg=1, intf=0, path='' @ [CHR 0x22] @ ''20-1''
     @ [CHR 0x22] @ '', alt=0, name='' @ [CHR 0x22]
     @ ''@Internal Flash  /0x08000000/04*016Kg,01*064Kg,07*128Kg'' @ [CHR 0x22]
     @ '', serial='' @ [CHR 0x22] @ ''3276365D3336'' @ [CHR 0x22]"

definition exampleListing :: cmd_run where
  "exampleListing =
     \<lparr>stdoutText = ''dfu-util 0.9'' @ [CHR 0x0A] @ ''Found DFU: '' @ exampleLine @ [CHR 0x0A],
      failure = None\<rparr>"

definition emptyListing :: cmd_run where
  "emptyListing = \<lparr>stdoutText = ''dfu-util 0.9'' @ [CHR 0x0A], failure = None\<rparr>"



text \<open>
  Lister runs that fail: one that prints nothing, one that prints the device line and
  then exits with a failure.
\<close>

definition listerFailed :: cmd_run where
  "listerFailed = \<lparr>stdoutText = [], failure = Some (ErrExternal ''exit status 1'')\<rparr>"

definition listerFailedAfterListing :: cmd_run where
  "listerFailedAfterListing =
     \<lparr>stdoutText = ''Found DFU: '' @ exampleLine @ [CHR 0x0A],
      failure = Some (ErrExternal ''exit status 1'')\<rparr>"



section \<open>Facts about the serial-configuration case\<close>

declare serialEntries.simps [simp del]
declare readSerialConfigs.simps [simp del]

lemma readSerialConfigs_entries:
  "readSerialConfigs msk bs h acc =
     (case serialEntries bs of
        None \<Rightarrow> Inl PanicReadError
      | Some cs \<Rightarrow> Inr (h \<or> list_ex (\<lambda>c. FunctionMask c AND msk = msk) cs, acc @ cs))"
proof (induction msk bs h acc rule: readSerialConfigs.induct)
  case (1 msk bs h acc)
  show ?case
  proof (cases "ReadSerialConfig bs")
    case (ReadOk cfg rest)
    then show ?thesis
      using 1[OF ReadOk]
      by (subst readSerialConfigs.simps, subst serialEntries.simps)
         (auto split: option.splits)
  next
    case ReadEOF
    then show ?thesis
      by (subst readSerialConfigs.simps, subst serialEntries.simps) simp
  next
    case ReadUnexpectedEOF
    then show ?thesis
      by (subst readSerialConfigs.simps, subst serialEntries.simps) simp
  qed
qed

lemma and_or_absorb_left:
  fixes m a b :: "'a::len word"
  assumes "m AND (a OR b) = a OR b"
  shows "m AND a = a"
proof -
  have "m AND a = (m AND (a OR b)) AND a"
    by (auto simp: bit_eq_iff bit_and_iff bit_or_iff)
  also have "\<dots> = (a OR b) AND a" using assms by simp
  also have "\<dots> = a"
    by (auto simp: bit_eq_iff bit_and_iff bit_or_iff)
  finally show ?thesis .
qed

lemma and_or_absorb_right:
  fixes m a b :: "'a::len word"
  assumes "m AND (a OR b) = a OR b"
  shows "m AND b = b"
  using and_or_absorb_left[of m b a] assms by (simp add: or.commute)

lemma enableOnFirstMSPPort_none:
  "\<forall>c\<in>set cs. FunctionMask c AND serialFunctionMSP k = 0 \<Longrightarrow>
     enableOnFirstMSPPort k f cs = (f, cs)"
  by (induction cs) auto

lemma enableOnFirstMSPPort_first:
  assumes "i < length cs" "FunctionMask (cs ! i) AND serialFunctionMSP k \<noteq> 0"
    "\<forall>j<i. FunctionMask (cs ! j) AND serialFunctionMSP k = 0"
  shows "enableOnFirstMSPPort k f cs =
     (printf ''Enabling FUNCTION_DEBUG_TRACE on serial port %v\<newline>''
        [D (uint (Identifier (cs ! i)))] f,
      cs[i := (cs ! i)\<lparr>FunctionMask := FunctionMask (cs ! i) OR serialFunctionDebugTrace k\<rparr>])"
  using assms
proof (induction cs arbitrary: i)
  case Nil
  then show ?case by simp
next
  case (Cons c cs)
  show ?case
  proof (cases i)
    case 0
    then show ?thesis using Cons.prems by simp
  next
    case (Suc i')
    have c0: "FunctionMask c AND serialFunctionMSP k = 0"
      using Cons.prems(3) Suc by force
    have "enableOnFirstMSPPort k f cs =
       (printf ''Enabling FUNCTION_DEBUG_TRACE on serial port %v\<newline>''
          [D (uint (Identifier (cs ! i')))] f,
        cs[i' := (cs ! i')\<lparr>FunctionMask :=
             FunctionMask (cs ! i') OR serialFunctionDebugTrace k\<rparr>])"
      using Cons.prems Suc by (intro Cons.IH) auto
    then show ?thesis using Suc c0 by simp
  qed
qed

lemma exampleFC_policy: "shouldEnableDebugTrace exampleFC"
  by (simp add: shouldEnableDebugTrace_def exampleFC_def versionGte_def)

lemma serialNoMSP_entries:
  "serialEntries (Payload serialNoMSP) = Some [\<lparr>Identifier = 0, FunctionMask = 2\<rparr>]"
  by (simp add: serialNoMSP_def serialEntries.simps ReadSerialConfig_def)

lemma serialNoPorts_entries: "serialEntries (Payload serialNoPorts) = Some []"
  by (simp add: serialNoPorts_def serialEntries.simps ReadSerialConfig_def)

lemma serialOneMSP_entries:
  "serialEntries (Payload serialOneMSP) =
     Some [\<lparr>Identifier = 0, FunctionMask = 2\<rparr>, \<lparr>Identifier = 1, FunctionMask = 1\<rparr>,
           \<lparr>Identifier = 2, FunctionMask = 4\<rparr>]"
  by (simp add: serialOneMSP_def serialEntries.simps ReadSerialConfig_def)

section \<open>Serial-port configuration without an MSP port\<close>

text \<open>
  C1, as the spec states it, fails: for a serial-configuration frame in which no entry
  carries the MSP function, handled while the policy allows enabling debug trace, the
  handler does issue commands. On the frame \<open>serialNoMSP\<close> it writes a set-serial-config
  command with the one entry as it was read, and then the persist command; on the frame
  \<open>serialNoPorts\<close>, which has no entry at all, it writes a set-serial-config command with
  no entries, and then the persist command.
\<close>

theorem no_msp_port_still_issues_commands:
  "handleFrame exampleConsts exampleFC serialNoMSP =
     Inr (exampleFC\<lparr>msp := (msp exampleFC)\<lparr>written :=
            [(MspSetCFSerialConfig, SerialData [\<lparr>Identifier = 0, FunctionMask = 2\<rparr>]),
             (MspEepromWrite, NoData)]\<rparr>\<rparr>)
   \<and> handleFrame exampleConsts exampleFC serialNoPorts =
     Inr (exampleFC\<lparr>msp := (msp exampleFC)\<lparr>written :=
            [(MspSetCFSerialConfig, SerialData []), (MspEepromWrite, NoData)]\<rparr>\<rparr>)"
  by (simp add: handleFrame_def handleCFSerialConfig_def exampleFC_policy
        readSerialConfigs_entries serialNoMSP_entries serialNoPorts_entries
        exampleConsts_def WriteCmd_def
        serialNoMSP_def [THEN arg_cong [of _ _ Code]]
        serialNoPorts_def [THEN arg_cong [of _ _ Code]])
     (simp add: exampleFC_def)

text \<open>
  C1, amended: for every serial-configuration frame in which no entry carries the MSP
  function, handled while the policy allows enabling debug trace, no entry is modified
  and nothing is printed, and the handler issues one set-serial-config command that
  carries the entries unchanged, followed by one persist command. (The MSP flag is a
  non-zero constant.)
\<close>

theorem no_msp_port_writes_unchanged_config:
  assumes "Code fr = MspCFSerialConfig" and "shouldEnableDebugTrace f"
    and "serialEntries (Payload fr) = Some cfgs"
    and "\<forall>c\<in>set cfgs. FunctionMask c AND serialFunctionMSP k = 0"
    and "serialFunctionMSP k \<noteq> 0"
  shows "handleFrame k f fr =
     Inr (WriteCmd MspEepromWrite NoData
           (WriteCmd MspSetCFSerialConfig (SerialData cfgs) f))"
proof -
  have "\<not> list_ex (\<lambda>c. FunctionMask c AND (serialFunctionMSP k OR serialFunctionDebugTrace k)
          = (serialFunctionMSP k OR serialFunctionDebugTrace k)) cfgs"
    using assms(4,5) and_or_absorb_left by (fastforce simp: list_ex_iff)
  then show ?thesis using assms(1,2,3,4)
    by (simp add: handleFrame_def handleCFSerialConfig_def readSerialConfigs_entries
          enableOnFirstMSPPort_none)
qed

theorem no_msp_port_writes_unchanged_config_witness:
  "handleFrame exampleConsts exampleFC serialNoMSP =
     Inr (WriteCmd MspEepromWrite NoData
           (WriteCmd MspSetCFSerialConfig
              (SerialData [\<lparr>Identifier = 0, FunctionMask = 2\<rparr>]) exampleFC))"
  using no_msp_port_writes_unchanged_config
          [where fr = serialNoMSP and f = exampleFC and k = exampleConsts
             and cfgs = "[\<lparr>Identifier = 0, FunctionMask = 2\<rparr>]"]
  by (simp add: exampleFC_policy serialNoMSP_entries exampleConsts_def
        serialNoMSP_def [THEN arg_cong [of _ _ Code]])

section \<open>Serial-port configuration with one MSP port\<close>

text \<open>
  C5: for every serial-configuration frame whose entries contain exactly one entry
  (at index \<open>i\<close>) with the MSP function and no entry with the debug-trace function,
  handled while the policy allows enabling debug trace, the handler returns normally;
  it sets the debug-trace function on entry \<open>i\<close> only (the written sequence is the read
  one updated at \<open>i\<close>, where only the function mask changes), and it writes exactly one
  set-serial-config command with the whole updated sequence and then exactly one persist
  command. (The debug-trace flag is a non-zero constant.)
\<close>

theorem single_msp_port_gets_debug_trace:
  assumes "Code fr = MspCFSerialConfig" and "shouldEnableDebugTrace f"
    and "serialEntries (Payload fr) = Some cfgs"
    and "i < length cfgs"
    and "FunctionMask (cfgs ! i) AND serialFunctionMSP k \<noteq> 0"
    and "\<forall>j<length cfgs. j \<noteq> i \<longrightarrow> FunctionMask (cfgs ! j) AND serialFunctionMSP k = 0"
    and "\<forall>c\<in>set cfgs. FunctionMask c AND serialFunctionDebugTrace k = 0"
    and "serialFunctionDebugTrace k \<noteq> 0"
  shows "\<exists>f'. handleFrame k f fr = Inr f' \<and>
     written (msp f') = written (msp f) @
       [(MspSetCFSerialConfig,
         SerialData (cfgs[i := (cfgs ! i)\<lparr>FunctionMask :=
            FunctionMask (cfgs ! i) OR serialFunctionDebugTrace k\<rparr>])),
        (MspEepromWrite, NoData)] \<and>
     f' = WriteCmd MspEepromWrite NoData
           (WriteCmd MspSetCFSerialConfig
              (SerialData (cfgs[i := (cfgs ! i)\<lparr>FunctionMask :=
                   FunctionMask (cfgs ! i) OR serialFunctionDebugTrace k\<rparr>]))
              (printf ''Enabling FUNCTION_DEBUG_TRACE on serial port %v\<newline>''
                 [D (uint (Identifier (cfgs ! i)))] f))"
proof -
  have "\<not> list_ex (\<lambda>c. FunctionMask c AND (serialFunctionMSP k OR serialFunctionDebugTrace k)
          = (serialFunctionMSP k OR serialFunctionDebugTrace k)) cfgs"
    using assms(7,8) and_or_absorb_right by (fastforce simp: list_ex_iff)
  moreover have "enableOnFirstMSPPort k f cfgs =
     (printf ''Enabling FUNCTION_DEBUG_TRACE on serial port %v\<newline>''
        [D (uint (Identifier (cfgs ! i)))] f,
      cfgs[i := (cfgs ! i)\<lparr>FunctionMask :=
         FunctionMask (cfgs ! i) OR serialFunctionDebugTrace k\<rparr>])"
    using assms(4,5,6) by (intro enableOnFirstMSPPort_first) auto
  ultimately show ?thesis using assms(1,2,3)
    by (simp add: handleFrame_def handleCFSerialConfig_def readSerialConfigs_entries
          WriteCmd_def printf_def)
qed

theorem single_msp_port_gets_debug_trace_witness:
  "\<exists>f'. handleFrame exampleConsts exampleFC serialOneMSP = Inr f' \<and>
     written (msp f') =
       [(MspSetCFSerialConfig,
         SerialData [\<lparr>Identifier = 0, FunctionMask = 2\<rparr>,
                     \<lparr>Identifier = 1, FunctionMask = 0x8001\<rparr>,
                     \<lparr>Identifier = 2, FunctionMask = 4\<rparr>]),
        (MspEepromWrite, NoData)]"
  using single_msp_port_gets_debug_trace
          [where fr = serialOneMSP and f = exampleFC and k = exampleConsts and i = 1
             and cfgs = "[\<lparr>Identifier = 0, FunctionMask = 2\<rparr>,
                          \<lparr>Identifier = 1, FunctionMask = 1\<rparr>,
                          \<lparr>Identifier = 2, FunctionMask = 4\<rparr>]"]
  by (simp add: exampleFC_policy serialOneMSP_entries exampleConsts_def
        serialOneMSP_def [THEN arg_cong [of _ _ Code]] less_Suc_eq
        exampleFC_def [THEN arg_cong [of _ _ msp]])

section \<open>Reconnection\<close>

lemma reconnect_success:
  assumes "True \<in> set attempts"
  shows "\<exists>f'. reconnect f attempts = Some f'
      \<and> variant f' = [] \<and> versionMajor f' = 0 \<and> versionMinor f' = 0 \<and> versionPatch f' = 0
      \<and> boardID f' = [] \<and> targetName f' = [] \<and> features f' = 0
      \<and> written (msp f') = infoRequests"
  using assms
proof (induction attempts)
  case Nil
  then show ?case by simp
next
  case (Cons ok attempts)
  show ?case
  proof (cases ok)
    case True
    then show ?thesis
      by (simp add: NewMSP_def updateInfo_def WriteCmd_def reset_def printf_def
            infoRequests_def)
  next
    case False
    then show ?thesis using Cons by (simp add: NewMSP_def)
  qed
qed

text \<open>
  C2: whenever one of the attempts to reopen the port succeeds, \<^verbatim>\<open>reconnect\<close> returns, and
  the receive loop goes on to the later reads from a state in which the variant, the
  version triple, the board identifier, the target name and the feature mask are empty or
  zero, and in which exactly the seven info requests, each once and in the order of
  \<^verbatim>\<open>updateInfo\<close>, have been written to the new connection. (The session state has no
  field for the serial-port configuration: it is a local variable of \<^verbatim>\<open>handleFrame\<close>.)
\<close>

theorem reconnect_resets_and_requests_info:
  assumes "True \<in> set attempts"
  shows "\<exists>f'. StartUpdating k f (GotEOF attempts # rs) = StartUpdating k f' rs
      \<and> reconnect (printf ''Board disconnected, trying to reconnect...\<newline>'' [] f) attempts
          = Some f'
      \<and> variant f' = [] \<and> versionMajor f' = 0 \<and> versionMinor f' = 0 \<and> versionPatch f' = 0
      \<and> boardID f' = [] \<and> targetName f' = [] \<and> features f' = 0
      \<and> written (msp f') = infoRequests"
proof -
  obtain f' where
    "reconnect (printf ''Board disconnected, trying to reconnect...\<newline>'' [] f) attempts
       = Some f'"
    and "variant f' = [] \<and> versionMajor f' = 0 \<and> versionMinor f' = 0 \<and> versionPatch f' = 0
      \<and> boardID f' = [] \<and> targetName f' = [] \<and> features f' = 0
      \<and> written (msp f') = infoRequests"
    using reconnect_success[OF assms] by blast
  then show ?thesis by (intro exI[of _ f']) simp
qed

theorem reconnect_resets_and_requests_info_witness:
  "\<exists>f'. StartUpdating exampleConsts exampleFC [GotEOF [False, False, True]] = Running f'
      \<and> variant f' = [] \<and> versionMajor f' = 0 \<and> versionMinor f' = 0 \<and> versionPatch f' = 0
      \<and> boardID f' = [] \<and> targetName f' = [] \<and> features f' = 0
      \<and> written (msp f') = infoRequests"
proof -
  have t: "True \<in> set [False, False, True]" by simp
  obtain f' where
    h: "StartUpdating exampleConsts exampleFC [GotEOF [False, False, True]]
          = StartUpdating exampleConsts f' []"
    and r: "variant f' = [] \<and> versionMajor f' = 0 \<and> versionMinor f' = 0
      \<and> versionPatch f' = 0 \<and> boardID f' = [] \<and> targetName f' = [] \<and> features f' = 0
      \<and> written (msp f') = infoRequests"
    using reconnect_resets_and_requests_info [OF t, of exampleConsts exampleFC "[]"]
    by blast
  from h have "StartUpdating exampleConsts exampleFC [GotEOF [False, False, True]] = Running f'"
    by (simp only: StartUpdating.simps(1))
  then show ?thesis using r by blast
qed

section \<open>The feature mask\<close>

lemma shouldEnableDebugTrace_cong:
  "EnableDebugTrace (opts g) = EnableDebugTrace (opts f) \<Longrightarrow> variant g = variant f \<Longrightarrow>
   versionMajor g = versionMajor f \<Longrightarrow> versionMinor g = versionMinor f \<Longrightarrow>
   versionPatch g = versionPatch f \<Longrightarrow> shouldEnableDebugTrace g = shouldEnableDebugTrace f"
  by (simp add: shouldEnableDebugTrace_def versionGte_def)

lemma handleFeature_policy:
  "shouldEnableDebugTrace (handleFeature k f fr) = shouldEnableDebugTrace f"
  by (rule shouldEnableDebugTrace_cong)
     (auto simp: handleFeature_def Let_def WriteCmd_def printf_def split: read_result.splits)

lemma or_and_self:
  fixes a b :: "'a::len word"
  shows "(a OR b) AND b = b"
  by (auto simp: bit_eq_iff bit_and_iff bit_or_iff)

lemma handleFeature_keeps_bit:
  assumes "shouldEnableDebugTrace f" and "mspFCFeatureDebugTrace k \<noteq> 0"
  shows "features (handleFeature k f fr) AND mspFCFeatureDebugTrace k \<noteq> 0"
proof -
  define f1 where "f1 = (case ReadU32 (Payload fr) of
                  ReadOk v rest \<Rightarrow> f\<lparr>features := v\<rparr>
                | ReadEOF \<Rightarrow> f
                | ReadUnexpectedEOF \<Rightarrow> f)"
  have p: "shouldEnableDebugTrace f1 = shouldEnableDebugTrace f"
    by (rule shouldEnableDebugTrace_cong) (auto simp: f1_def split: read_result.splits)
  show ?thesis
  proof (cases "features f1 AND mspFCFeatureDebugTrace k = 0")
    case True
    then have "features (handleFeature k f fr) = features f1 OR mspFCFeatureDebugTrace k"
      using p assms(1)
      by (simp add: handleFeature_def f1_def[symmetric] Let_def WriteCmd_def printf_def)
    then show ?thesis using assms(2) by (simp add: or_and_self)
  next
    case False
    then have "handleFeature k f fr = f1"
      by (simp add: handleFeature_def f1_def[symmetric] Let_def)
    then show ?thesis using False by simp
  qed
qed

lemma feature_frames_run:
  assumes "\<forall>fr\<in>set frs. Code fr = MspFeature" and "shouldEnableDebugTrace f"
    and "features f AND mspFCFeatureDebugTrace k \<noteq> 0"
  shows "\<exists>f'. StartUpdating k f (map GotFrame frs) = Running f' \<and> shouldEnableDebugTrace f'
     \<and> features f' AND mspFCFeatureDebugTrace k \<noteq> 0"
  using assms
proof (induction frs arbitrary: f)
  case Nil
  then show ?case by simp
next
  case (Cons fr frs)
  have nz: "mspFCFeatureDebugTrace k \<noteq> 0" using Cons.prems(3) by auto
  have "\<exists>f'. StartUpdating k (handleFeature k f fr) (map GotFrame frs) = Running f'
     \<and> shouldEnableDebugTrace f' \<and> features f' AND mspFCFeatureDebugTrace k \<noteq> 0"
    using Cons.prems nz
    by (intro Cons.IH) (auto simp: handleFeature_policy handleFeature_keeps_bit)
  then show ?case using Cons.prems(1) by (simp add: handleFrame_def)
qed

lemma featureWithTrace_read: "ReadU32 (Payload featureWithTrace) = ReadOk 0x80000001 []"
  by (simp add: featureWithTrace_def ReadU32_def)

text \<open>
  C3, as the spec states it, fails: the feature case stores the mask of every frame it
  reads, so a frame without the debug-trace bit clears a stored bit when the policy does
  not allow enabling it. In the session \<open>exampleFCNotRequested\<close> the stored mask has the
  bit; after the frame \<open>featureNone\<close> the stored mask is zero.
\<close>

theorem feature_frame_clears_stored_debug_trace:
  "features exampleFCNotRequested AND mspFCFeatureDebugTrace exampleConsts \<noteq> 0
   \<and> handleFrame exampleConsts exampleFCNotRequested featureNone
       = Inr (exampleFCNotRequested\<lparr>features := 0\<rparr>)"
  by (simp add: exampleFCNotRequested_def exampleConsts_def featureNone_def handleFrame_def
        handleFeature_def ReadU32_def shouldEnableDebugTrace_def exampleFC_def)

text \<open>
  C3, amended: for every sequence of feature-set frames handled while the policy allows
  enabling debug trace, the debug-trace bit, once set in the stored feature mask, is set
  after the whole sequence (so after each of its frames). Whatever the policy, a frame
  whose mask \<open>m\<close> can be read leaves \<open>m\<close> in the stored mask, with the debug-trace bit
  added when \<open>m\<close> lacks it and the policy allows it; and a frame whose mask already has the
  debug-trace bit changes nothing but the stored mask: no command is written, nothing is
  printed.
\<close>

theorem feature_frames_keep_debug_trace:
  assumes "\<forall>fr\<in>set frs. Code fr = MspFeature" and "shouldEnableDebugTrace f"
    and "features f AND mspFCFeatureDebugTrace k \<noteq> 0"
  shows "(\<exists>f'. StartUpdating k f (map GotFrame frs) = Running f'
            \<and> features f' AND mspFCFeatureDebugTrace k \<noteq> 0)
     \<and> (Code fr = MspFeature \<and> ReadU32 (Payload fr) = ReadOk m rest \<longrightarrow>
          (\<exists>g'. handleFrame k g fr = Inr g' \<and>
             features g' =
               (if m AND mspFCFeatureDebugTrace k = 0 \<and> shouldEnableDebugTrace g
                then m OR mspFCFeatureDebugTrace k else m)))
     \<and> (Code fr = MspFeature \<and> ReadU32 (Payload fr) = ReadOk m rest
          \<and> m AND mspFCFeatureDebugTrace k \<noteq> 0 \<longrightarrow>
          handleFrame k g fr = Inr (g\<lparr>features := m\<rparr>))"
proof (intro conjI impI)
  show "\<exists>f'. StartUpdating k f (map GotFrame frs) = Running f'
            \<and> features f' AND mspFCFeatureDebugTrace k \<noteq> 0"
    using feature_frames_run[OF assms] by blast
next
  assume a: "Code fr = MspFeature \<and> ReadU32 (Payload fr) = ReadOk m rest"
  have "shouldEnableDebugTrace (g\<lparr>features := m\<rparr>) = shouldEnableDebugTrace g"
    by (rule shouldEnableDebugTrace_cong) auto
  then show "\<exists>g'. handleFrame k g fr = Inr g' \<and>
             features g' =
               (if m AND mspFCFeatureDebugTrace k = 0 \<and> shouldEnableDebugTrace g
                then m OR mspFCFeatureDebugTrace k else m)"
    using a by (simp add: handleFrame_def handleFeature_def Let_def WriteCmd_def printf_def)
next
  assume "Code fr = MspFeature \<and> ReadU32 (Payload fr) = ReadOk m rest
          \<and> m AND mspFCFeatureDebugTrace k \<noteq> 0"
  then show "handleFrame k g fr = Inr (g\<lparr>features := m\<rparr>)"
    by (simp add: handleFrame_def handleFeature_def Let_def)
qed

theorem feature_frames_keep_debug_trace_witness:
  "(\<exists>f'. StartUpdating exampleConsts exampleFCTraceStored
            [GotFrame featureNone, GotFrame featureWithTrace] = Running f'
          \<and> features f' AND 0x80000000 \<noteq> 0)
   \<and> (\<exists>g'. handleFrame exampleConsts exampleFC featureWithTrace = Inr g'
          \<and> features g' = 0x80000001)
   \<and> handleFrame exampleConsts exampleFC featureWithTrace
       = Inr (exampleFC\<lparr>features := 0x80000001\<rparr>)"
  using feature_frames_keep_debug_trace
          [where frs = "[featureNone, featureWithTrace]" and f = exampleFCTraceStored
             and k = exampleConsts and fr = featureWithTrace and m = "0x80000001"
             and rest = "[]" and g = exampleFC]
  by (simp add: featureWithTrace_read exampleFCTraceStored_def exampleFC_policy
        featureNone_def [THEN arg_cong [of _ _ Code]]
        featureWithTrace_def [THEN arg_cong [of _ _ Code]]
        shouldEnableDebugTrace_cong [of "exampleFC\<lparr>features := 0x80000000\<rparr>" exampleFC]
        exampleConsts_def)

section \<open>The board-info frame\<close>

text \<open>
  C4: for every board-info frame, (1) if the payload has exactly 4 bytes the handler
  returns and the target name is as it was (unset if it was unset); (2) if the payload
  has 9 + n bytes and byte 8 is n, the handler returns and the target name is exactly the
  n bytes that follow byte 8; (3) if the payload is one byte short of that (8 + n bytes,
  with byte 8 equal to n when it exists), the handler returns and the target name is as
  it was.
\<close>

theorem board_info_target_name:
  assumes "Code fr = MspBoardInfo"
  shows "(length (Payload fr) = 4 \<longrightarrow>
            (\<exists>f'. handleFrame k f fr = Inr f' \<and> targetName f' = targetName f))
       \<and> (length (Payload fr) = 9 + n \<and> of_char (Payload fr ! 8) = n \<longrightarrow>
            (\<exists>f'. handleFrame k f fr = Inr f' \<and> targetName f' = drop 9 (Payload fr)
                 \<and> length (targetName f') = n))
       \<and> (length (Payload fr) + 1 = 9 + n \<and> (0 < n \<longrightarrow> of_char (Payload fr ! 8) = n) \<longrightarrow>
            (\<exists>f'. handleFrame k f fr = Inr f' \<and> targetName f' = targetName f))"
  using assms
  by (auto simp: handleFrame_def handleBoardInfo_def Let_def printInfo_def printf_def)

theorem board_info_target_name_witness:
  "(\<exists>f'. handleFrame exampleConsts exampleFC boardInfoShort = Inr f' \<and> targetName f' = [])
   \<and> (\<exists>f'. handleFrame exampleConsts exampleFC boardInfoNamed = Inr f'
          \<and> targetName f' = ''XYZ'')
   \<and> (\<exists>f'. handleFrame exampleConsts exampleFC boardInfoCut = Inr f' \<and> targetName f' = [])"
  using board_info_target_name
          [where fr = boardInfoShort and n = 0 and k = exampleConsts and f = exampleFC]
        board_info_target_name
          [where fr = boardInfoNamed and n = 3 and k = exampleConsts and f = exampleFC]
        board_info_target_name
          [where fr = boardInfoCut and n = 3 and k = exampleConsts and f = exampleFC]
  by (simp add: boardInfoShort_def boardInfoNamed_def boardInfoCut_def exampleFC_def) blast

section \<open>Payloads that are too short\<close>

text \<open>
  C10, as stated, fails for board info: the slice expression \<^verbatim>\<open>fr.Payload[:4]\<close> is bounded
  by the capacity of the payload, not by its length. The frame \<open>boardInfoSpare\<close> has a
  payload of 3 bytes in a slice of capacity 8; handling it does not panic, the board
  identifier becomes the 3 bytes and the byte that follows them in the backing array, and
  the receive loop goes on.
\<close>

theorem short_board_info_with_spare_capacity_returns:
  "length (Payload boardInfoSpare) < 4
   \<and> handleFrame exampleConsts exampleFC boardInfoSpare
       = Inr (printInfo (exampleFC\<lparr>boardID := ''ABCX''\<rparr>))
   \<and> boardID (printInfo (exampleFC\<lparr>boardID := ''ABCX''\<rparr>)) = ''ABCX''
   \<and> StartUpdating exampleConsts exampleFC [GotFrame boardInfoSpare]
       = Running (printInfo (exampleFC\<lparr>boardID := ''ABCX''\<rparr>))"
proof -
  have run: "length (Payload boardInfoSpare) < 4"
    "handleFrame exampleConsts exampleFC boardInfoSpare
       = Inr (printInfo (exampleFC\<lparr>boardID := ''ABCX''\<rparr>))"
    "StartUpdating exampleConsts exampleFC [GotFrame boardInfoSpare]
       = Running (printInfo (exampleFC\<lparr>boardID := ''ABCX''\<rparr>))"
    by (simp_all add: boardInfoSpare_def handleFrame_def handleBoardInfo_def)
  have board: "boardID (printInfo (exampleFC\<lparr>boardID := ''ABCX''\<rparr>)) = ''ABCX''"
    by (simp add: printInfo_def printf_def)
  show ?thesis by (intro conjI run board)
qed

text \<open>
  C10, amended: a board-info frame whose payload slice has a capacity below 4 bytes and a
  build-info frame with fewer than 19 payload bytes (whatever the capacity) make
  \<^verbatim>\<open>handleFrame\<close> panic with a slice-bounds error, and the receive loop ends in that panic
  instead of going on to the later reads. A board-info frame with fewer than 4 payload
  bytes in a slice of capacity 4 or more does not panic: the board identifier is read
  from the first 4 bytes of the backing array, beyond the end of the payload. A
  board-info frame with at least 4 payload bytes never panics, whatever its length byte
  and however short the name after it: only the target name is guarded by a length check.
\<close>

theorem short_info_payload_panics_up_to_capacity:
  "(Code fr = MspBoardInfo \<and> length (Payload fr) + length (Spare fr) < 4 \<longrightarrow>
      handleFrame k f fr = Inl SliceBoundsOutOfRange
      \<and> StartUpdating k f (GotFrame fr # rs) = Panicked SliceBoundsOutOfRange)
   \<and> (Code fr = MspBoardInfo \<and> length (Payload fr) < 4
        \<and> 4 \<le> length (Payload fr) + length (Spare fr) \<longrightarrow>
      handleFrame k f fr = Inr (printInfo (f\<lparr>boardID := take 4 (Payload fr @ Spare fr)\<rparr>)))
   \<and> (Code fr = MspBuildInfo \<and> length (Payload fr) < 19 \<longrightarrow>
      handleFrame k f fr = Inl SliceBoundsOutOfRange
      \<and> StartUpdating k f (GotFrame fr # rs) = Panicked SliceBoundsOutOfRange)
   \<and> (Code fr = MspBoardInfo \<and> 4 \<le> length (Payload fr) \<longrightarrow>
      (\<exists>f'. handleFrame k f fr = Inr f'))"
  by (auto simp: handleFrame_def handleBoardInfo_def handleBuildInfo_def Let_def)

theorem short_info_payload_panics_up_to_capacity_witness:
  "handleFrame exampleConsts exampleFC boardInfoTruncated = Inl SliceBoundsOutOfRange
   \<and> StartUpdating exampleConsts exampleFC [GotFrame boardInfoTruncated, GotFrame boardInfoNamed]
       = Panicked SliceBoundsOutOfRange
   \<and> handleFrame exampleConsts exampleFC boardInfoSpare
       = Inr (printInfo (exampleFC\<lparr>boardID := ''ABCX''\<rparr>))
   \<and> handleFrame exampleConsts exampleFC buildInfoTruncated = Inl SliceBoundsOutOfRange
   \<and> StartUpdating exampleConsts exampleFC [GotFrame buildInfoTruncated, GotFrame boardInfoNamed]
       = Panicked SliceBoundsOutOfRange
   \<and> (\<exists>f'. handleFrame exampleConsts exampleFC boardInfoCut = Inr f')"
  using short_info_payload_panics_up_to_capacity
          [where fr = boardInfoTruncated and k = exampleConsts and f = exampleFC
             and rs = "[GotFrame boardInfoNamed]"]
        short_info_payload_panics_up_to_capacity
          [where fr = boardInfoSpare and k = exampleConsts and f = exampleFC and rs = "[]"]
        short_info_payload_panics_up_to_capacity
          [where fr = buildInfoTruncated and k = exampleConsts and f = exampleFC
             and rs = "[GotFrame boardInfoNamed]"]
        short_info_payload_panics_up_to_capacity
          [where fr = boardInfoCut and k = exampleConsts and f = exampleFC and rs = "[]"]
  by (simp add: boardInfoTruncated_def boardInfoSpare_def buildInfoTruncated_def
        boardInfoCut_def)

section \<open>The identity summary\<close>

lemma printInfo_identity: "identity (printInfo g) = identity g"
  by (simp add: identity_def printInfo_def printf_def)

lemma printInfo_Stdout:
  "Stdout (opts (printInfo g)) =
     (if variant g \<noteq> [] \<and> versionMajor g \<noteq> 0 \<and> boardID g \<noteq> []
      then Stdout (opts g) @ [infoLine g] else Stdout (opts g))"
  by (simp add: printInfo_def printf_def)

lemma printInfo_fields:
  "variant (printInfo g) = variant g" "versionMajor (printInfo g) = versionMajor g"
  "versionMinor (printInfo g) = versionMinor g" "versionPatch (printInfo g) = versionPatch g"
  "boardID (printInfo g) = boardID g" "targetName (printInfo g) = targetName g"
  by (simp_all add: printInfo_def printf_def)

lemma infoLine_printInfo: "infoLine (printInfo g) = infoLine g"
  by (simp add: infoLine_def printInfo_fields)

text \<open>
  C6, as the spec states it, fails: \<^verbatim>\<open>printInfo\<close> tests the major version alone, so a
  populated version triple with major version 0 prints nothing. In the example session
  the variant and the board identifier are known; after a version frame for 0.9.1 the
  stored triple is (0, 9, 1), which is not zero, and nothing has been printed.
\<close>

theorem version_zero_major_prints_no_summary:
  "variant exampleFC \<noteq> [] \<and> boardID exampleFC \<noteq> []
   \<and> handleFrame exampleConsts exampleFC versionZeroMajor
       = Inr (exampleFC\<lparr>versionMajor := 0, versionMinor := 9, versionPatch := 1\<rparr>)
   \<and> Stdout (opts (exampleFC\<lparr>versionMajor := 0, versionMinor := 9, versionPatch := 1\<rparr>))
       = Stdout (opts exampleFC)"
  by (simp add: exampleFC_def versionZeroMajor_def handleFrame_def handleFCVersion_def
        Byte_def printInfo_def)

text \<open>
  C6, amended: after handling a variant, version or board-info frame, the one-line
  identity summary has been printed (once, and nothing else) if and only if the variant
  is non-empty, the major version is non-zero and the board identifier is non-empty.
  Printing leaves the identity unchanged, and handling the same frame once more returns
  with the same identity.
\<close>

theorem identity_summary_printed_iff:
  assumes "Code fr = MspFCVariant \<or> Code fr = MspFCVersion \<or> Code fr = MspBoardInfo"
    and "handleFrame k f fr = Inr f'"
  shows "Stdout (opts f') =
           (if variant f' \<noteq> [] \<and> versionMajor f' \<noteq> 0 \<and> boardID f' \<noteq> []
            then Stdout (opts f) @ [infoLine f'] else Stdout (opts f))
     \<and> identity (printInfo g) = identity g
     \<and> (\<exists>f''. handleFrame k f' fr = Inr f'' \<and> identity f'' = identity f')"
proof -
  consider (a) "Code fr = MspFCVariant" | (b) "Code fr = MspFCVersion"
    | (c) "Code fr = MspBoardInfo"
    using assms(1) by blast
  then have "Stdout (opts f') =
           (if variant f' \<noteq> [] \<and> versionMajor f' \<noteq> 0 \<and> boardID f' \<noteq> []
            then Stdout (opts f) @ [infoLine f'] else Stdout (opts f))
       \<and> (\<exists>f''. handleFrame k f' fr = Inr f'' \<and> identity f'' = identity f')"
  proof cases
    case a
    then have "f' = printInfo (f\<lparr>variant := Payload fr\<rparr>)"
      using assms(2) by (simp add: handleFrame_def handleFCVariant_def)
    then show ?thesis using a
      by (simp add: handleFrame_def handleFCVariant_def printInfo_Stdout printInfo_fields
            infoLine_printInfo printInfo_identity identity_def)
  next
    case b
    then obtain b0 b1 b2 where "Byte fr 0 = Inr b0" "Byte fr 1 = Inr b1" "Byte fr 2 = Inr b2"
      and "f' = printInfo (f\<lparr>versionMajor := b0, versionMinor := b1, versionPatch := b2\<rparr>)"
      using assms(2) by (auto simp: handleFrame_def handleFCVersion_def split: sum.splits)
    then show ?thesis using b
      by (simp add: handleFrame_def handleFCVersion_def printInfo_Stdout printInfo_fields
            infoLine_printInfo printInfo_identity identity_def)
  next
    case c
    then show ?thesis using assms(2)
      by (auto simp: handleFrame_def handleBoardInfo_def Let_def printInfo_Stdout
            printInfo_fields infoLine_printInfo printInfo_identity identity_def
            split: if_splits)
  qed
  then show ?thesis by (simp add: printInfo_identity)
qed

theorem identity_summary_printed_iff_witness:
  "handleFrame exampleConsts exampleFC boardInfoNamed = Inr exampleFCNamed
   \<and> Stdout (opts exampleFCNamed) = Stdout (opts exampleFC) @ [infoLine exampleFCNamed]
   \<and> identity (printInfo exampleFCNamed) = identity exampleFCNamed
   \<and> (\<exists>f''. handleFrame exampleConsts exampleFCNamed boardInfoNamed = Inr f''
          \<and> identity f'' = identity exampleFCNamed)"
proof -
  have h: "handleFrame exampleConsts exampleFC boardInfoNamed = Inr exampleFCNamed"
    by (simp add: handleFrame_def handleBoardInfo_def boardInfoNamed_def exampleFC_def
          exampleFCNamed_def printInfo_def printf_def infoLine_def)
  have c: "Code boardInfoNamed = MspFCVariant \<or> Code boardInfoNamed = MspFCVersion
           \<or> Code boardInfoNamed = MspBoardInfo"
    by (simp add: boardInfoNamed_def)
  show ?thesis
    using identity_summary_printed_iff [OF c h, where g = exampleFCNamed] h
    by (simp add: exampleFCNamed_def exampleFC_def)
qed

section \<open>Parsing the device descriptor\<close>











lemma exampleLine_alt: "regexpFind altPattern exampleLine = ''0''"
  by (simp add: regexpFind_def altPattern_def exampleLine_def isDigit_def)

lemma exampleLine_serial: "regexpFind serialPattern exampleLine = ''3276365D3336''"
  by (simp add: regexpFind_def serialPattern_def exampleLine_def)

lemma exampleLine_offset: "regexpFind offsetPattern exampleLine = ''0x08000000''"
  by (simp add: regexpFind_def offsetPattern_def exampleLine_def isDigit_def)

lemma exampleLine_marker: "Contains exampleLine internalFlashMarker"
  by (simp add: exampleLine_def internalFlashMarker_def)

lemma regexpFind_empty:
  "regexpFind altPattern [] = []" "regexpFind serialPattern [] = []"
  "regexpFind offsetPattern [] = []"
  by (simp_all add: regexpFind_def altPattern_def serialPattern_def offsetPattern_def)

lemma dfuList_no_error: "snd (dfuList run) = None"
  by (simp add: dfuList_def Let_def)

lemma dfuList_exampleListing: "dfuList exampleListing = ([exampleLine], None)"
  by (simp add: dfuList_def exampleListing_def Trim_def dfuDevicePrefix_def exampleLine_def)

lemma dfuList_emptyListing: "dfuList emptyListing = ([], None)"
  by (simp add: dfuList_def emptyListing_def Trim_def dfuDevicePrefix_def)

lemma dfuList_listerFailed: "dfuList listerFailed = ([], None)"
  by (simp add: dfuList_def listerFailed_def Trim_def dfuDevicePrefix_def)

lemma dfuList_listerFailedAfterListing:
  "dfuList listerFailedAfterListing = ([exampleLine], None)"
  by (simp add: dfuList_def listerFailedAfterListing_def Trim_def dfuDevicePrefix_def
        exampleLine_def)

lemma matchedDevice_examples:
  "matchedDevice exampleListing = exampleLine" "matchedDevice emptyListing = []"
  "matchedDevice listerFailed = []" "matchedDevice listerFailedAfterListing = exampleLine"
  by (simp_all add: matchedDevice_def dfuList_exampleListing dfuList_emptyListing
        dfuList_listerFailed dfuList_listerFailedAfterListing exampleLine_marker)

lemma dfuFlash_matchedDevice:
  "dfuFlash listRun flashResult base f dfuPath binaryPath =
     (if regexpFind altPattern (matchedDevice listRun) = [] \<or>
         regexpFind serialPattern (matchedDevice listRun) = [] \<or>
         regexpFind offsetPattern (matchedDevice listRun) = []
      then (f, None,
            Some (Errorf ''could not determine flash parameters from %q''
                    [S (matchedDevice listRun)]))
      else (printf ''Flashing %s via DFU to offset %s...\<newline>''
              [S (base binaryPath), S (regexpFind offsetPattern (matchedDevice listRun))] f,
            Some [dfuPath, ''-a'', regexpFind altPattern (matchedDevice listRun), ''-S'',
                  regexpFind serialPattern (matchedDevice listRun), ''-s'',
                  regexpFind offsetPattern (matchedDevice listRun) @ '':leave'',
                  ''-D'', binaryPath],
            flashResult))"
proof -
  obtain devices where d: "dfuList listRun = (devices, None)"
    using dfuList_no_error[of listRun] by (cases "dfuList listRun") auto
  show ?thesis
    by (simp add: dfuFlash_def d matchedDevice_def Let_def)
qed





































section \<open>Selecting the newest binary\<close>










section \<open>A failing device lister\<close>

lemma dfuWait_examples:
  "dfuWait 0 [(1, listerFailed), (30000000001, listerFailed)]
     = Some (Some (Errorf ''timed out while waiting for board in DFU mode'' []))"
  "dfuWait 0 [(1, listerFailedAfterListing)] = Some None"
  by (simp_all add: dfuWait_def dfuList_listerFailed dfuList_listerFailedAfterListing
        exampleLine_marker)

text \<open>
  C9 does not hold of the code: \<^verbatim>\<open>dfuList\<close> drops the error of the lister run. For a run
  that fails and prints nothing it returns no lines and no error; \<^verbatim>\<open>dfuWait\<close> then polls
  until its own time-out, and \<^verbatim>\<open>dfuFlash\<close> reports that it could not determine the flash
  parameters. For a run that prints the device line and then fails, \<^verbatim>\<open>dfuWait\<close> succeeds
  and \<^verbatim>\<open>dfuFlash\<close> launches the flashing command. In no case is the lister's own error
  returned.
\<close>

theorem lister_failure_is_dropped:
  "failure listerFailed = Some (ErrExternal ''exit status 1'')
   \<and> dfuList listerFailed = ([], None)
   \<and> dfuWait 0 [(1, listerFailed), (30000000001, listerFailed)]
       = Some (Some (Errorf ''timed out while waiting for board in DFU mode'' []))
   \<and> dfuFlash listerFailed None id exampleFC ''dfu-util'' ''obj/inav_TARGET1.bin''
       = (exampleFC, None,
          Some (Errorf ''could not determine flash parameters from %q'' [S []]))
   \<and> failure listerFailedAfterListing = Some (ErrExternal ''exit status 1'')
   \<and> dfuWait 0 [(1, listerFailedAfterListing)] = Some None
   \<and> snd (dfuFlash listerFailedAfterListing None id exampleFC ''dfu-util''
             ''obj/inav_TARGET1.bin'')
       = (Some [''dfu-util'', ''-a'', ''0'', ''-S'', ''3276365D3336'', ''-s'',
                ''0x08000000:leave'', ''-D'', ''obj/inav_TARGET1.bin''],
          None)"
  by (simp add: dfuList_listerFailed dfuWait_examples dfuFlash_matchedDevice
        matchedDevice_examples regexpFind_empty exampleLine_alt exampleLine_serial
        exampleLine_offset listerFailed_def [THEN arg_cong [of _ _ failure]]
        listerFailedAfterListing_def [THEN arg_cong [of _ _ failure]])

end
